theory Spec2Isabelle
  imports Main "HOL-Library.Sublist"
begin

section \<open>The tech-insights plugin module: data\<close>

text \<open>
  The module under study is \<^verbatim>\<open>plugins/tech-insights.ts\<close>. It declares a list of checks,
  one fact retriever with an asynchronous handler, and the helper \<^verbatim>\<open>checkReadmeFile\<close>.
  The embedding below follows the file from top to bottom.
\<close>

subsection \<open>JavaScript values and exceptions\<close>

text \<open>
  The expression computing \<^verbatim>\<open>hasDefinition\<close> uses the operator \<^verbatim>\<open>&&\<close>, which returns one
  of its operands and not a coerced boolean. The values that can flow through it are
  \<^verbatim>\<open>undefined\<close>, booleans and strings. Strings are lists of characters; every literal of
  the module is ASCII.
\<close>

datatype js_value = JUndefined | JBoolean bool | JString string

fun truthy :: "js_value \<Rightarrow> bool" where
  "truthy JUndefined = False"
| "truthy (JBoolean b) = b"
| "truthy (JString s) = (s \<noteq> [])"

text \<open>
  A thrown value. \<open>TypeError\<close> is raised by the language itself (reading a property of
  \<^verbatim>\<open>undefined\<close>); \<open>Rejected\<close> is a value thrown by a collaborator, kept as the text that
  the template literal \<^verbatim>\<open>`${error}`\<close> yields for it; \<open>Unconvertible\<close> is a thrown value
  whose conversion to text throws in turn (a symbol, or an object whose \<^verbatim>\<open>toString\<close>
  throws), kept with what the conversion throws.
\<close>

datatype exn = TypeError string | Rejected string | Unconvertible exn

text \<open>The conversion \<^verbatim>\<open>`${error}`\<close>: the text of the thrown value, or an exception.\<close>

fun render_exn :: "exn \<Rightarrow> exn + string" where
  "render_exn (TypeError m) = Inr (''TypeError: '' @ m)"
| "render_exn (Rejected s) = Inr s"
| "render_exn (Unconvertible err) = Inl err"

subsection \<open>Catalog entities\<close>

record metadata =
  name :: string
  namespace :: "string option"
  annotations :: "(string \<rightharpoonup> string) option"

record api_spec =
  spec_definition :: "string option"

record entity =
  kind :: string
  metadata :: metadata
  spec :: "api_spec option"

record entities_response =
  items :: "entity list"

subsection \<open>Collaborators\<close>

record location_ref =
  ref_type :: string
  target :: string

text \<open>
  The names the module imports from libraries. Their code is not part of the module, so
  they are parameters of everything below: the two string constants, the parser of
  location references (which may throw), and the catalog client's entity listing, which
  is reached through the discovery service, a filter on kinds and a token.
\<close>

type_synonym discovery = "string \<Rightarrow> exn + string"

record library =
  JSON_RULE_ENGINE_CHECK_TYPE :: string
  ANNOTATION_SOURCE_LOCATION :: string
  parseLocationRef :: "string \<Rightarrow> exn + location_ref"
  catalog_getEntities :: "discovery \<Rightarrow> string list \<Rightarrow> string \<Rightarrow> exn + entities_response"

record search_response =
  files :: "string list option"

record url_reader =
  search :: "string \<Rightarrow> exn + search_response"

record plugin_token =
  token :: string

record auth_service =
  getOwnServiceCredentials :: "exn + string"
  getPluginRequestToken :: "string \<Rightarrow> string \<Rightarrow> exn + plugin_token"

text \<open>
  The logger receives text and returns nothing; like every call, \<^verbatim>\<open>logger.info\<close> may
  throw.
\<close>

record logger_service =
  info :: "string \<Rightarrow> exn + unit"

record fact_retriever_context =
  ctx_discovery :: discovery
  ctx_auth :: auth_service
  ctx_logger :: logger_service
  ctx_urlReader :: url_reader

text \<open>
  The calls a run makes to the logger and to the reader's search are recorded as its
  events, in program order. A call is recorded whether it returns or throws.
\<close>

datatype event = LogInfo string | Search string

subsection \<open>Check declarations\<close>

record condition =
  fact :: string
  operator :: string
  cond_value :: js_value

record check_decl =
  check_id :: string
  check_type :: string
  check_name :: string
  check_description :: string
  factIds :: "string list"
  rule_conditions_all :: "condition list"

definition checks :: "library \<Rightarrow> check_decl list" where
  "checks lib =
    [ \<lparr> check_id = ''groupOwnerCheck'',
        check_type = JSON_RULE_ENGINE_CHECK_TYPE lib,
        check_name = ''Group Owner Check'',
        check_description = ''Verifies that a Group has been set as the owner for this entity'',
        factIds = [''entityOwnershipFactRetriever''],
        rule_conditions_all =
          [ \<lparr> fact = ''hasGroupOwner'', operator = ''equal'', cond_value = JBoolean True \<rparr> ] \<rparr>,
      \<lparr> check_id = ''apiDefinitionCheck'',
        check_type = JSON_RULE_ENGINE_CHECK_TYPE lib,
        check_name = ''API definition Check'',
        check_description = ''Verifies that a API has a definition set'',
        factIds = [''apiDefinitionFactRetriever''],
        rule_conditions_all =
          [ \<lparr> fact = ''hasDefinition'', operator = ''equal'', cond_value = JBoolean True \<rparr>,
            \<lparr> fact = ''hasReadme'', operator = ''equal'', cond_value = JBoolean True \<rparr> ] \<rparr> ]"

section \<open>The README probe\<close>

subsection \<open>The regular expressions and \<^verbatim>\<open>String.prototype.replace\<close>\<close>

text \<open>
  The four patterns use literals, one optional non-capturing group of literal
  alternatives, and the end-of-input anchor \<^verbatim>\<open>$\<close> (no flag is set, so \<^verbatim>\<open>$\<close> is the end of
  the whole string). A pattern is the list of its pieces.

  \<open>re_match\<close> matches a pattern at the start of a string and yields the text left after
  the match. The optional group is greedy: its alternatives are tried in order, each
  followed by the rest of the pattern, before the group is skipped.
\<close>

datatype piece = Lit string | OptGroup "string list" | EndOfInput

type_synonym regex = "piece list"

fun re_match :: "regex \<Rightarrow> string \<Rightarrow> string option" where
  "re_match [] s = Some s"
| "re_match (Lit l # ps) s =
     (if prefix l s then re_match ps (drop (length l) s) else None)"
| "re_match (EndOfInput # ps) s =
     (if s = [] then re_match ps s else None)"
| "re_match (OptGroup alts # ps) s =
     (case List.map_filter
             (\<lambda>a. if prefix a s then re_match ps (drop (length a) s) else None) alts of
        r # _ \<Rightarrow> Some r
      | [] \<Rightarrow> re_match ps s)"

text \<open>
  \<^verbatim>\<open>re.test(str)\<close>: the pattern matches at some position of the string, the end
  included.
\<close>

fun re_test :: "regex \<Rightarrow> string \<Rightarrow> bool" where
  "re_test re [] = (case re_match re [] of Some r \<Rightarrow> True | None \<Rightarrow> False)"
| "re_test re (c # cs) =
     (case re_match re (c # cs) of Some r \<Rightarrow> True | None \<Rightarrow> re_test re cs)"

text \<open>
  \<^verbatim>\<open>str.replace(re, rep)\<close> for a pattern without the global flag and a replacement text
  without \<^verbatim>\<open>$\<close> sequences: the leftmost position where the pattern matches is found, the
  matched text is replaced, and a string with no match is returned as it is.
\<close>

fun js_replace :: "regex \<Rightarrow> string \<Rightarrow> string \<Rightarrow> string" where
  "js_replace re rep [] =
     (case re_match re [] of Some r \<Rightarrow> rep @ r | None \<Rightarrow> [])"
| "js_replace re rep (c # cs) =
     (case re_match re (c # cs) of
        Some r \<Rightarrow> rep @ r
      | None \<Rightarrow> c # js_replace re rep cs)"

text \<open>
  The elements of the array \<^verbatim>\<open>COMPONENT_LOCATIONS_REGEX\<close>, named after their position so
  that the lemmas can refer to them:
  \<^verbatim>\<open>/\/catalog-info\.yaml$/\<close>, \<^verbatim>\<open>/\%2Fcatalog-info\.yaml$/\<close>,
  \<^verbatim>\<open>/\/\.devhub\/(?:dev\/|int\/|prod\/)?components\.yaml$/\<close> and
  \<^verbatim>\<open>/\%2F\.devhub\%2F(?:dev\%2F|int\%2F|prod\%2F)?components\.yaml$/\<close>.
\<close>

definition regex_0 :: regex where
  "regex_0 = [Lit ''/catalog-info.yaml'', EndOfInput]"

definition regex_1 :: regex where
  "regex_1 = [Lit ''%2Fcatalog-info.yaml'', EndOfInput]"

definition regex_2 :: regex where
  "regex_2 =
     [Lit ''/.devhub/'', OptGroup [''dev/'', ''int/'', ''prod/''],
      Lit ''components.yaml'', EndOfInput]"

definition regex_3 :: regex where
  "regex_3 =
     [Lit ''%2F.devhub%2F'', OptGroup [''dev%2F'', ''int%2F'', ''prod%2F''],
      Lit ''components.yaml'', EndOfInput]"

definition COMPONENT_LOCATIONS_REGEX :: "regex list" where
  "COMPONENT_LOCATIONS_REGEX = [regex_0, regex_1, regex_2, regex_3]"

text \<open>The \<^verbatim>\<open>reduce\<close> over the patterns, starting from the parsed target.\<close>

definition readmeUrl :: "string \<Rightarrow> string" where
  "readmeUrl tgt = foldl (\<lambda>str re. js_replace re ''/README.md'' str) tgt COMPONENT_LOCATIONS_REGEX"

subsection \<open>\<^verbatim>\<open>checkReadmeFile\<close>\<close>

text \<open>The decimal text of a length, as a template literal prints it.\<close>

fun string_of_nat :: "nat \<Rightarrow> string" where
  "string_of_nat n =
     (if n < 10 then [''0123456789'' ! n]
      else string_of_nat (n div 10) @ [''0123456789'' ! (n mod 10)])"

declare string_of_nat.simps [simp del]

text \<open>
  \<^verbatim>\<open>entity.metadata.annotations?.[ANNOTATION_SOURCE_LOCATION]\<close>: \<open>None\<close> stands for
  \<^verbatim>\<open>undefined\<close>, which is the value both when the entity has no annotations and when the
  key is missing.
\<close>

definition sourceLocation :: "library \<Rightarrow> entity \<Rightarrow> string option" where
  "sourceLocation lib e =
     (case annotations (metadata e) of
        None \<Rightarrow> None
      | Some m \<Rightarrow> m (ANNOTATION_SOURCE_LOCATION lib))"

text \<open>
  The block under \<^verbatim>\<open>try\<close>. It either completes with a boolean or throws, and in both cases
  it has performed the events listed. Each of its statements can throw: the parser, the
  first call of the logger, the search, the second call of the logger, and the reading of
  \<^verbatim>\<open>response.files.length\<close>, which throws a \<^verbatim>\<open>TypeError\<close> when the response carries no file
  list (the log line before it uses \<^verbatim>\<open>?.\<close> and prints \<^verbatim>\<open>undefined\<close> instead).
\<close>

definition checkReadmeFile_try ::
  "library \<Rightarrow> logger_service \<Rightarrow> url_reader \<Rightarrow> string \<Rightarrow> (exn + bool) \<times> event list" where
  "checkReadmeFile_try lib logger reader loc =
     (case parseLocationRef lib loc of
        Inl err \<Rightarrow> (Inl err, [])
      | Inr sourceLocationRef \<Rightarrow>
          (let url = readmeUrl (target sourceLocationRef);
               searching = ''->>> searching '' @ url
           in case info logger searching of
                Inl err \<Rightarrow> (Inl err, [LogInfo searching])
              | Inr u \<Rightarrow>
                  (case search reader url of
                     Inl err \<Rightarrow> (Inl err, [LogInfo searching, Search url])
                   | Inr response \<Rightarrow>
                       (let found =
                              ''->>> '' @
                              (case files response of
                                 None \<Rightarrow> ''undefined''
                               | Some fs \<Rightarrow> string_of_nat (length fs)) @
                              '', '' @ url;
                            evs = [LogInfo searching, Search url, LogInfo found]
                        in case info logger found of
                             Inl err \<Rightarrow> (Inl err, evs)
                           | Inr u \<Rightarrow>
                               (case files response of
                                  None \<Rightarrow>
                                    (Inl (TypeError
                                       ''Cannot read properties of undefined (reading 'length')''),
                                     evs)
                                | Some fs \<Rightarrow> (Inr (length fs = 1), evs))))))"

text \<open>
  The whole function: the guard on the annotation (\<^verbatim>\<open>!sourceLocation\<close> holds for
  \<^verbatim>\<open>undefined\<close> and for the empty string), then the \<^verbatim>\<open>try\<close> block with its \<^verbatim>\<open>catch\<close>
  handler. The handler converts the thrown value to text, passes the line to the logger
  and returns \<^verbatim>\<open>false\<close>; nothing guards these two steps, so an exception of the conversion
  or of the logger leaves the function.
\<close>

definition checkReadmeFile ::
  "library \<Rightarrow> entity \<Rightarrow> logger_service \<Rightarrow> url_reader \<Rightarrow> (exn + bool) \<times> event list" where
  "checkReadmeFile lib e logger reader =
     (case sourceLocation lib e of
        None \<Rightarrow> (Inr False, [])
      | Some loc \<Rightarrow>
          if loc = [] then (Inr False, [])
          else
            (case checkReadmeFile_try lib logger reader loc of
               (Inr b, evs) \<Rightarrow> (Inr b, evs)
             | (Inl err, evs) \<Rightarrow>
                 (case render_exn err of
                    Inl err' \<Rightarrow> (Inl err', evs)
                  | Inr line \<Rightarrow>
                      (case info logger (''-->>> '' @ line) of
                         Inl err' \<Rightarrow> (Inl err', evs @ [LogInfo (''-->>> '' @ line)])
                       | Inr u \<Rightarrow> (Inr False, evs @ [LogInfo (''-->>> '' @ line)])))))"

text \<open>The URLs a run has passed to the reader's search, in order.\<close>

fun searched :: "event list \<Rightarrow> string list" where
  "searched [] = []"
| "searched (Search u # evs) = u # searched evs"
| "searched (LogInfo m # evs) = searched evs"

section \<open>The fact retriever\<close>

record entity_ref =
  ref_namespace :: "string option"
  ref_kind :: string
  ref_name :: string

record facts =
  hasDefinition :: js_value
  hasReadme :: bool

record tech_insight_fact =
  fact_entity :: entity_ref
  fact_facts :: facts

text \<open>\<^verbatim>\<open>(entity as ApiEntityV1alpha1).spec?.definition\<close>\<close>

definition spec_definition_of :: "entity \<Rightarrow> js_value" where
  "spec_definition_of e =
     (case spec e of
        None \<Rightarrow> JUndefined
      | Some sp \<Rightarrow> (case spec_definition sp of None \<Rightarrow> JUndefined | Some d \<Rightarrow> JString d))"

text \<open>
  \<^verbatim>\<open>(entity as ApiEntityV1alpha1).spec?.definition.length > 0\<close>: the optional chain ends
  the whole access with \<^verbatim>\<open>undefined\<close> when \<^verbatim>\<open>spec\<close> is missing, and \<^verbatim>\<open>undefined > 0\<close> is
  \<^verbatim>\<open>false\<close>; with \<^verbatim>\<open>spec\<close> present and no definition, reading \<^verbatim>\<open>length\<close> throws.
\<close>

definition spec_definition_length_gt_0 :: "entity \<Rightarrow> exn + js_value" where
  "spec_definition_length_gt_0 e =
     (case spec e of
        None \<Rightarrow> Inr (JBoolean False)
      | Some sp \<Rightarrow>
          (case spec_definition sp of
             None \<Rightarrow> Inl (TypeError ''Cannot read properties of undefined (reading 'length')'')
           | Some d \<Rightarrow> Inr (JBoolean (length d > 0))))"

text \<open>
  The value stored under \<^verbatim>\<open>hasDefinition\<close>: \<^verbatim>\<open>a && b\<close> is \<^verbatim>\<open>a\<close> itself when \<^verbatim>\<open>a\<close> is
  falsy, and \<^verbatim>\<open>b\<close> otherwise; \<^verbatim>\<open>b\<close> is evaluated only in the second case.
\<close>

definition hasDefinition_value :: "entity \<Rightarrow> exn + js_value" where
  "hasDefinition_value e =
     (let a = spec_definition_of e
      in if truthy a then spec_definition_length_gt_0 e else Inr a)"

text \<open>
  \<^verbatim>\<open>Promise.all\<close> over the mapped list: it fulfils with the results in the order of the
  list when every element fulfils, and rejects when one rejects.
\<close>

fun promise_all :: "(exn + 'a) list \<Rightarrow> exn + 'a list" where
  "promise_all [] = Inr []"
| "promise_all (p # ps) =
     (case p of
        Inl err \<Rightarrow> Inl err
      | Inr v \<Rightarrow> (case promise_all ps of Inl err \<Rightarrow> Inl err | Inr vs \<Rightarrow> Inr (v # vs)))"

text \<open>
  The asynchronous function mapped over the entities. Its events are those of
  \<^verbatim>\<open>checkReadmeFile\<close> for the entity; how the runs of different entities interleave does
  not affect the values, and the handler is modelled by the value it settles with. An
  exception that leaves \<^verbatim>\<open>checkReadmeFile\<close> rejects the function.
\<close>

definition entity_facts ::
  "library \<Rightarrow> fact_retriever_context \<Rightarrow> entity \<Rightarrow> exn + tech_insight_fact" where
  "entity_facts lib ctx e =
     (case hasDefinition_value e of
        Inl err \<Rightarrow> Inl err
      | Inr d \<Rightarrow>
          (case fst (checkReadmeFile lib e (ctx_logger ctx) (ctx_urlReader ctx)) of
             Inl err \<Rightarrow> Inl err
           | Inr r \<Rightarrow>
               Inr \<lparr> fact_entity =
                       \<lparr> ref_namespace = namespace (metadata e),
                         ref_kind = kind e,
                         ref_name = name (metadata e) \<rparr>,
                     fact_facts = \<lparr> hasDefinition = d, hasReadme = r \<rparr> \<rparr>))"

definition handler ::
  "library \<Rightarrow> fact_retriever_context \<Rightarrow> exn + tech_insight_fact list" where
  "handler lib ctx =
     (case getOwnServiceCredentials (ctx_auth ctx) of
        Inl err \<Rightarrow> Inl err
      | Inr credentials \<Rightarrow>
          (case getPluginRequestToken (ctx_auth ctx) credentials ''catalog'' of
             Inl err \<Rightarrow> Inl err
           | Inr t \<Rightarrow>
               (case catalog_getEntities lib (ctx_discovery ctx) [''API''] (token t) of
                  Inl err \<Rightarrow> Inl err
                | Inr entities \<Rightarrow>
                    promise_all (map (entity_facts lib ctx) (items entities)))))"

record schema_entry =
  schema_type :: string
  schema_description :: string

record fact_retriever =
  retriever_id :: string
  retriever_version :: string
  retriever_title :: string
  retriever_description :: string
  retriever_schema :: "(string \<times> schema_entry) list"
  retriever_handler :: "fact_retriever_context \<Rightarrow> exn + tech_insight_fact list"

definition apiDefinitionFactRetriever :: "library \<Rightarrow> fact_retriever" where
  "apiDefinitionFactRetriever lib =
     \<lparr> retriever_id = ''apiDefinitionFactRetriever'',
       retriever_version = ''0.0.1'',
       retriever_title = ''API Definition'',
       retriever_description = ''Generates facts which indicate the completeness of API spec'',
       retriever_schema =
         [ (''hasDefinition'',
            \<lparr> schema_type = ''boolean'',
              schema_description = ''The entity has a definition in spec'' \<rparr>),
           (''hasReadme'',
            \<lparr> schema_type = ''boolean'',
              schema_description = ''The entity has a readme file'' \<rparr>) ],
       retriever_handler = handler lib \<rparr>"

subsection \<open>What the module exports\<close>

text \<open>
  The file has two \<^verbatim>\<open>export const\<close> declarations, in this order; \<^verbatim>\<open>checkReadmeFile\<close> is
  not exported.
\<close>

datatype export = ExportChecks "check_decl list" | ExportFactRetriever fact_retriever

fun is_fact_retriever :: "export \<Rightarrow> bool" where
  "is_fact_retriever (ExportFactRetriever r) = True"
| "is_fact_retriever (ExportChecks cs) = False"

fun is_check_list :: "export \<Rightarrow> bool" where
  "is_check_list (ExportChecks cs) = True"
| "is_check_list (ExportFactRetriever r) = False"

definition module_exports :: "library \<Rightarrow> (string \<times> export) list" where
  "module_exports lib =
     [ (''checks'', ExportChecks (checks lib)),
       (''apiDefinitionFactRetriever'', ExportFactRetriever (apiDefinitionFactRetriever lib)) ]"

section \<open>Sample collaborators for the worked examples\<close>

text \<open>
  A parser that splits a location reference at its first colon and throws when there is
  none, a catalog of four API entities, a reader that finds one README under \<^verbatim>\<open>r1\<close>,
  two under \<^verbatim>\<open>r2\<close>, no file for \<^verbatim>\<open>r4/notes.txt\<close> and throws elsewhere, and an
  authentication service that succeeds, a logger that returns and one that throws.
\<close>

definition sample_parseLocationRef :: "string \<Rightarrow> exn + location_ref" where
  "sample_parseLocationRef s =
     (if CHR '':'' \<in> set s
      then Inr \<lparr> ref_type = takeWhile (\<lambda>c. c \<noteq> CHR '':'') s,
                 target = tl (dropWhile (\<lambda>c. c \<noteq> CHR '':'') s) \<rparr>
      else Inl (TypeError ''Unable to parse location ref''))"

definition sample_entity :: "string \<Rightarrow> (string \<rightharpoonup> string) option \<Rightarrow> api_spec option \<Rightarrow> entity" where
  "sample_entity n anns sp =
     \<lparr> kind = ''API'',
       metadata = \<lparr> name = n, namespace = Some ''default'', annotations = anns \<rparr>,
       spec = sp \<rparr>"

definition sample_annotated :: "string \<Rightarrow> string \<Rightarrow> api_spec option \<Rightarrow> entity" where
  "sample_annotated n loc sp =
     sample_entity n (Some [''backstage.io/source-location'' \<mapsto> loc]) sp"

definition sample_entities :: "entity list" where
  "sample_entities =
     [ sample_annotated ''a'' ''url:r1/catalog-info.yaml'' (Some \<lparr> spec_definition = Some ''openapi'' \<rparr>),
       sample_annotated ''b'' ''url:r2/.devhub/dev/components.yaml'' (Some \<lparr> spec_definition = Some [] \<rparr>),
       sample_annotated ''c'' ''url:r3/catalog-info.yaml'' (Some \<lparr> spec_definition = None \<rparr>),
       sample_entity ''d'' None None ]"

definition sample_library :: library where
  "sample_library =
     \<lparr> JSON_RULE_ENGINE_CHECK_TYPE = ''json-rules-engine'',
       ANNOTATION_SOURCE_LOCATION = ''backstage.io/source-location'',
       parseLocationRef = sample_parseLocationRef,
       catalog_getEntities = (\<lambda>d kinds t. Inr \<lparr> items = sample_entities \<rparr>) \<rparr>"

definition sample_reader :: url_reader where
  "sample_reader =
     \<lparr> search = (\<lambda>url.
         if url = ''r1/README.md'' then Inr \<lparr> files = Some [''r1/README.md''] \<rparr>
         else if url = ''r2/README.md'' then Inr \<lparr> files = Some [''r2/README.md'', ''r2/readme.md''] \<rparr>
         else if url = ''r4/notes.txt'' then Inr \<lparr> files = Some [] \<rparr>
         else Inl (Rejected ''NotFoundError: not found'')) \<rparr>"

definition sample_auth :: auth_service where
  "sample_auth =
     \<lparr> getOwnServiceCredentials = Inr ''plugin:tech-insights'',
       getPluginRequestToken = (\<lambda>credentials plugin. Inr \<lparr> token = ''secret'' \<rparr>) \<rparr>"

definition sample_logger :: logger_service where
  "sample_logger = \<lparr> info = (\<lambda>message. Inr ()) \<rparr>"

definition failing_logger :: logger_service where
  "failing_logger = \<lparr> info = (\<lambda>message. Inl (Rejected ''Error: logger down'')) \<rparr>"

definition sample_context :: fact_retriever_context where
  "sample_context =
     \<lparr> ctx_discovery = (\<lambda>plugin. Inr (''http://localhost/'' @ plugin)),
       ctx_auth = sample_auth,
       ctx_logger = sample_logger,
       ctx_urlReader = sample_reader \<rparr>"

section \<open>Properties of the patterns\<close>

lemma prefix_drop_eq: "prefix a u \<and> drop (length a) u = c \<longleftrightarrow> u = a @ c"
  by (auto simp: prefix_def)

lemma re_match_lit_end:
  "re_match [Lit c, EndOfInput] u = (if u = c then Some [] else None)"
  by (auto simp: prefix_def)

lemma first_of_map_filter:
  assumes "\<And>a. a \<in> set alts \<Longrightarrow> f a = (if P a then Some v else None)"
  shows "(case List.map_filter f alts of r # _ \<Rightarrow> Some r | [] \<Rightarrow> z) =
         (if \<exists>a \<in> set alts. P a then Some v else z)"
  using assms by (induction alts) auto

lemma re_match_opt_lit_end:
  "re_match [OptGroup alts, Lit c, EndOfInput] u =
     (if u \<in> set (map (\<lambda>g. g @ c) alts) \<or> u = c then Some [] else None)"
proof -
  have "re_match [OptGroup alts, Lit c, EndOfInput] u =
          (if \<exists>a \<in> set alts. u = a @ c then Some [] else re_match [Lit c, EndOfInput] u)"
    unfolding re_match.simps(4)
    by (rule first_of_map_filter) (simp only: re_match_lit_end prefix_drop_eq flip: if_distrib, auto simp: prefix_def)
  then show ?thesis
    by (auto simp only: re_match_lit_end set_map image_iff split: if_splits)
qed

lemma re_match_lit_opt_lit_end:
  "re_match [Lit a, OptGroup alts, Lit c, EndOfInput] t =
     (if t \<in> set (map (\<lambda>g. a @ g @ c) alts) \<or> t = a @ c then Some [] else None)"
proof (cases "prefix a t")
  case True
  then obtain u where "t = a @ u" by (auto simp: prefix_def)
  then show ?thesis
    by (simp add: re_match_opt_lit_end del: re_match.simps(4)) auto
next
  case False
  then show ?thesis by (auto simp: prefix_def)
qed

lemma match_2: "re_match regex_2 t = (if t \<in> {''/.devhub/components.yaml'', ''/.devhub/dev/components.yaml'', ''/.devhub/int/components.yaml'', ''/.devhub/prod/components.yaml''} then Some [] else None)"
  unfolding regex_2_def re_match_lit_opt_lit_end by simp

lemma match_3: "re_match regex_3 t = (if t \<in> {''%2F.devhub%2Fcomponents.yaml'', ''%2F.devhub%2Fdev%2Fcomponents.yaml'', ''%2F.devhub%2Fint%2Fcomponents.yaml'', ''%2F.devhub%2Fprod%2Fcomponents.yaml''} then Some [] else None)"
  unfolding regex_3_def re_match_lit_opt_lit_end by simp

lemma match_0: "re_match regex_0 t = (if t = ''/catalog-info.yaml'' then Some [] else None)"
  unfolding regex_0_def by (rule re_match_lit_end)
lemma match_1: "re_match regex_1 t = (if t = ''%2Fcatalog-info.yaml'' then Some [] else None)"
  unfolding regex_1_def by (rule re_match_lit_end)

lemma js_replace_no_match: "\<not> re_test re s \<Longrightarrow> js_replace re rep s = s"
  by (induction s) (auto split: option.splits)

lemma re_test_suffix: "re_test re s \<longleftrightarrow> (\<exists>t. suffix t s \<and> re_match re t \<noteq> None)"
  by (induction s) (auto simp: suffix_Cons split: option.splits)

lemma js_replace_at:
  assumes "re_match re t = Some r"
    and "\<And>q. q \<noteq> [] \<Longrightarrow> suffix q p \<Longrightarrow> re_match re (q @ t) = None"
  shows "js_replace re rep (p @ t) = p @ rep @ r"
  using assms
proof (induction p)
  case Nil
  then show ?case by (cases t) auto
next
  case (Cons c p)
  have "re_match re ((c # p) @ t) = None"
    using Cons.prems(2) [of "c # p"] by simp
  moreover have "js_replace re rep (p @ t) = p @ rep @ r"
    using Cons.IH Cons.prems by (simp add: suffix_Cons)
  ultimately show ?case by simp
qed

lemma suffix_append_rev: "suffix t (p @ a) \<longleftrightarrow> prefix (rev t) (rev a @ rev p)"
  by (simp add: suffix_to_prefix)

lemma append_eq_rev: "(q @ a = b) \<longleftrightarrow> (rev a @ rev q = rev b)"
  by (metis rev_append rev_rev_ident)

lemma re_test_by_cases:
  assumes "\<And>t. re_match re t = (if P t then Some [] else None)"
  shows "re_test re s \<longleftrightarrow> (\<exists>t. P t \<and> suffix t s)"
proof -
  have "re_match re t \<noteq> None \<longleftrightarrow> P t" for t
    by (simp add: assms)
  then show ?thesis
    unfolding re_test_suffix by blast
qed

lemma test_0: "re_test regex_0 s \<longleftrightarrow> suffix ''/catalog-info.yaml'' s"
  unfolding re_test_by_cases [of regex_0, OF match_0] by blast

lemma test_1: "re_test regex_1 s \<longleftrightarrow> suffix ''%2Fcatalog-info.yaml'' s"
  unfolding re_test_by_cases [of regex_1, OF match_1] by blast

lemma test_2: "re_test regex_2 s \<longleftrightarrow>
   suffix ''/.devhub/components.yaml'' s \<or> suffix ''/.devhub/dev/components.yaml'' s \<or>
   suffix ''/.devhub/int/components.yaml'' s \<or> suffix ''/.devhub/prod/components.yaml'' s"
  unfolding re_test_by_cases [of regex_2, OF match_2] by blast

lemma test_3: "re_test regex_3 s \<longleftrightarrow>
   suffix ''%2F.devhub%2Fcomponents.yaml'' s \<or> suffix ''%2F.devhub%2Fdev%2Fcomponents.yaml'' s \<or>
   suffix ''%2F.devhub%2Fint%2Fcomponents.yaml'' s \<or> suffix ''%2F.devhub%2Fprod%2Fcomponents.yaml'' s"
  unfolding re_test_by_cases [of regex_3, OF match_3] by blast

lemmas re_tests = test_0 test_1 test_2 test_3

lemma readme_fixed:
  "\<not> re_test regex_0 (p @ ''/README.md'')"
  "\<not> re_test regex_1 (p @ ''/README.md'')"
  "\<not> re_test regex_2 (p @ ''/README.md'')"
  "\<not> re_test regex_3 (p @ ''/README.md'')"
  by (simp_all add: re_tests suffix_append_rev)

lemma no_0_on_enc: "\<not> re_test regex_0 (p @ ''%2Fcatalog-info.yaml'')"
  by (simp add: re_tests suffix_append_rev)

lemma rep_0: "js_replace regex_0 rep (p @ ''/catalog-info.yaml'') = p @ rep"
  using js_replace_at [of regex_0 "''/catalog-info.yaml''" "[]" p rep]
  by (simp add: match_0)

lemma rep_1: "js_replace regex_1 rep (p @ ''%2Fcatalog-info.yaml'') = p @ rep"
  using js_replace_at [of regex_1 "''%2Fcatalog-info.yaml''" "[]" p rep]
  by (simp add: match_1)

lemma no_01_on_components:
  "\<not> re_test regex_0 (p @ ''/.devhub/dev/components.yaml'')"
  "\<not> re_test regex_0 (p @ ''/.devhub/int/components.yaml'')"
  "\<not> re_test regex_0 (p @ ''/.devhub/prod/components.yaml'')"
  "\<not> re_test regex_0 (p @ ''%2F.devhub%2Fdev%2Fcomponents.yaml'')"
  "\<not> re_test regex_0 (p @ ''%2F.devhub%2Fint%2Fcomponents.yaml'')"
  "\<not> re_test regex_0 (p @ ''%2F.devhub%2Fprod%2Fcomponents.yaml'')"
  "\<not> re_test regex_1 (p @ ''/.devhub/dev/components.yaml'')"
  "\<not> re_test regex_1 (p @ ''/.devhub/int/components.yaml'')"
  "\<not> re_test regex_1 (p @ ''/.devhub/prod/components.yaml'')"
  "\<not> re_test regex_1 (p @ ''%2F.devhub%2Fdev%2Fcomponents.yaml'')"
  "\<not> re_test regex_1 (p @ ''%2F.devhub%2Fint%2Fcomponents.yaml'')"
  "\<not> re_test regex_1 (p @ ''%2F.devhub%2Fprod%2Fcomponents.yaml'')"
  by (simp_all add: re_tests suffix_append_rev)

lemma no_2_on_enc:
  "\<not> re_test regex_2 (p @ ''%2F.devhub%2Fdev%2Fcomponents.yaml'')"
  "\<not> re_test regex_2 (p @ ''%2F.devhub%2Fint%2Fcomponents.yaml'')"
  "\<not> re_test regex_2 (p @ ''%2F.devhub%2Fprod%2Fcomponents.yaml'')"
  by (simp_all add: re_tests suffix_append_rev)

lemma rep_2:
  "js_replace regex_2 rep (p @ ''/.devhub/dev/components.yaml'') = p @ rep"
  "js_replace regex_2 rep (p @ ''/.devhub/int/components.yaml'') = p @ rep"
  "js_replace regex_2 rep (p @ ''/.devhub/prod/components.yaml'') = p @ rep"
  using js_replace_at [of regex_2 "''/.devhub/dev/components.yaml''" "[]" p rep]
        js_replace_at [of regex_2 "''/.devhub/int/components.yaml''" "[]" p rep]
        js_replace_at [of regex_2 "''/.devhub/prod/components.yaml''" "[]" p rep]
  by (simp_all add: match_2 append_eq_rev)

lemma rep_3:
  "js_replace regex_3 rep (p @ ''%2F.devhub%2Fdev%2Fcomponents.yaml'') = p @ rep"
  "js_replace regex_3 rep (p @ ''%2F.devhub%2Fint%2Fcomponents.yaml'') = p @ rep"
  "js_replace regex_3 rep (p @ ''%2F.devhub%2Fprod%2Fcomponents.yaml'') = p @ rep"
  using js_replace_at [of regex_3 "''%2F.devhub%2Fdev%2Fcomponents.yaml''" "[]" p rep]
        js_replace_at [of regex_3 "''%2F.devhub%2Fint%2Fcomponents.yaml''" "[]" p rep]
        js_replace_at [of regex_3 "''%2F.devhub%2Fprod%2Fcomponents.yaml''" "[]" p rep]
  by (simp_all add: match_3 append_eq_rev)


subsection \<open>The rewritten URL\<close>

lemma readmeUrl_unfold:
  "readmeUrl s =
     js_replace regex_3 ''/README.md'' (js_replace regex_2 ''/README.md''
       (js_replace regex_1 ''/README.md'' (js_replace regex_0 ''/README.md'' s)))"
  by (simp add: readmeUrl_def COMPONENT_LOCATIONS_REGEX_def)

lemma readmeUrl_catalog_info:
  assumes "sfx = ''/catalog-info.yaml'' \<or> sfx = ''%2Fcatalog-info.yaml''"
  shows "readmeUrl (p @ sfx) = p @ ''/README.md''"
  using assms
  by (auto simp: readmeUrl_unfold rep_0 rep_1 no_0_on_enc readme_fixed js_replace_no_match)

lemma readmeUrl_components:
  assumes "sfx \<in> {''/.devhub/dev/components.yaml'', ''/.devhub/int/components.yaml'',
                  ''/.devhub/prod/components.yaml'', ''%2F.devhub%2Fdev%2Fcomponents.yaml'',
                  ''%2F.devhub%2Fint%2Fcomponents.yaml'', ''%2F.devhub%2Fprod%2Fcomponents.yaml''}"
  shows "readmeUrl (p @ sfx) = p @ ''/README.md''"
  using assms
  by (auto simp: readmeUrl_unfold rep_2 rep_3 no_01_on_components no_2_on_enc readme_fixed js_replace_no_match)

lemma readmeUrl_no_match:
  assumes "\<not> list_ex (\<lambda>re. re_test re s) COMPONENT_LOCATIONS_REGEX"
  shows "readmeUrl s = s"
  using assms
  by (simp add: readmeUrl_unfold COMPONENT_LOCATIONS_REGEX_def js_replace_no_match)

section \<open>Properties of the probe and of the handler\<close>


lemma checkReadmeFile_try_throws:
  assumes "checkReadmeFile_try lib logger reader loc = (Inl err, evs)"
  shows "parseLocationRef lib loc = Inl err \<or> (\<exists>m. info logger m = Inl err) \<or>
         (\<exists>url. search reader url = Inl err) \<or>
         err = TypeError ''Cannot read properties of undefined (reading 'length')''"
  using assms
  by (auto simp: checkReadmeFile_try_def Let_def split: sum.splits option.splits)

lemma checkReadmeFile_total:
  assumes "\<And>m. info logger m = Inr ()"
    and "\<And>s err. parseLocationRef lib s = Inl err \<Longrightarrow> \<not> isl (render_exn err)"
    and "\<And>url err. search reader url = Inl err \<Longrightarrow> \<not> isl (render_exn err)"
  shows "\<exists>b. fst (checkReadmeFile lib e logger reader) = Inr b"
proof (cases "sourceLocation lib e")
  case None
  then show ?thesis by (auto simp: checkReadmeFile_def)
next
  case (Some loc)
  show ?thesis
  proof (cases "checkReadmeFile_try lib logger reader loc")
    case (Pair r evs)
    show ?thesis
    proof (cases r)
      case (Inr b)
      with Some Pair show ?thesis by (auto simp: checkReadmeFile_def)
    next
      case (Inl err)
      with Pair have "\<not> isl (render_exn err)"
        using checkReadmeFile_try_throws [of lib logger reader loc err evs] assms by auto
      then obtain line where "render_exn err = Inr line"
        by (cases "render_exn err") auto
      with Some Pair Inl assms(1) show ?thesis by (auto simp: checkReadmeFile_def)
    qed
  qed
qed

lemma checkReadmeFile_raises:
  assumes "fst (checkReadmeFile lib e logger reader) = Inl err'"
  shows "\<exists>loc err evs. sourceLocation lib e = Some loc \<and> loc \<noteq> [] \<and>
           checkReadmeFile_try lib logger reader loc = (Inl err, evs) \<and>
           (render_exn err = Inl err' \<or>
            (\<exists>line. render_exn err = Inr line \<and> info logger (''-->>> '' @ line) = Inl err'))"
  using assms
  by (auto simp: checkReadmeFile_def split: option.splits if_splits prod.splits sum.splits)

text \<open>
  What \<^verbatim>\<open>hasDefinition\<close> holds: it is truthy exactly for a present, non-empty definition,
  and then it is the boolean \<^verbatim>\<open>true\<close>; otherwise it is the falsy left operand itself.
\<close>

lemma hasDefinition_value_cases:
  "hasDefinition_value e =
     Inr (case spec_definition_of e of
            JString d \<Rightarrow> if d = [] then JString [] else JBoolean True
          | v \<Rightarrow> v)"
  by (simp add: hasDefinition_value_def spec_definition_of_def spec_definition_length_gt_0_def
      split: option.splits)

lemma hasDefinition_value_total: "\<exists>v. hasDefinition_value e = Inr v"
  by (simp add: hasDefinition_value_def spec_definition_of_def spec_definition_length_gt_0_def
      split: option.splits)

lemma entity_facts_raises:
  assumes "entity_facts lib ctx e = Inl err"
  shows "fst (checkReadmeFile lib e (ctx_logger ctx) (ctx_urlReader ctx)) = Inl err"
  using assms hasDefinition_value_total [of e]
  by (auto simp: entity_facts_def split: sum.splits)

lemma entity_facts_total:
  assumes "\<And>m. info (ctx_logger ctx) m = Inr ()"
    and "\<And>s err. parseLocationRef lib s = Inl err \<Longrightarrow> \<not> isl (render_exn err)"
    and "\<And>url err. search (ctx_urlReader ctx) url = Inl err \<Longrightarrow> \<not> isl (render_exn err)"
  shows "\<exists>f. entity_facts lib ctx e = Inr f"
proof -
  obtain v where "hasDefinition_value e = Inr v"
    using hasDefinition_value_total by blast
  moreover obtain b where "fst (checkReadmeFile lib e (ctx_logger ctx) (ctx_urlReader ctx)) = Inr b"
    using checkReadmeFile_total [of "ctx_logger ctx" lib "ctx_urlReader ctx" e] assms by blast
  ultimately show ?thesis by (simp add: entity_facts_def)
qed

lemma promise_all_map:
  assumes "\<And>x. x \<in> set xs \<Longrightarrow> \<exists>v. f x = Inr v"
  shows "\<exists>vs. promise_all (map f xs) = Inr vs"
  using assms
proof (induction xs)
  case Nil
  then show ?case by simp
next
  case (Cons x xs)
  then obtain v where v: "f x = Inr v" by auto
  from Cons obtain vs where vs: "promise_all (map f xs) = Inr vs" by auto
  show ?case using v vs by auto
qed

lemma promise_all_Inr:
  assumes "promise_all (map f xs) = Inr vs"
  shows "length vs = length xs \<and> (\<forall>i < length xs. f (xs ! i) = Inr (vs ! i))"
  using assms
proof (induction xs arbitrary: vs)
  case Nil
  then show ?case by simp
next
  case (Cons x xs)
  from Cons.prems obtain v ws where v: "f x = Inr v" and ws: "promise_all (map f xs) = Inr ws"
    and vs: "vs = v # ws"
    by (auto split: sum.splits)
  from Cons.IH [OF ws] have "length ws = length xs"
    and "\<forall>i < length xs. f (xs ! i) = Inr (ws ! i)" by auto
  then show ?case using v vs by (auto simp: nth_Cons split: nat.splits)
qed

lemma promise_all_Inl:
  "promise_all ps = Inl err \<Longrightarrow> Inl err \<in> set ps"
  by (induction ps arbitrary: err) (auto split: sum.splits)

subsection \<open>The sample collaborators, evaluated\<close>

lemma sample_sourceLocation:
  "sourceLocation sample_library (sample_annotated n loc sp) = Some loc"
  "sourceLocation sample_library (sample_entity n None sp) = None"
  by (simp_all add: sourceLocation_def sample_library_def sample_annotated_def sample_entity_def)

lemma sample_parse:
  "parseLocationRef sample_library (''url:'' @ t) = Inr \<lparr> ref_type = ''url'', target = t \<rparr>"
  "parseLocationRef sample_library ''nocolon'' = Inl (TypeError ''Unable to parse location ref'')"
  by (simp_all add: sample_library_def sample_parseLocationRef_def)

lemma sample_no_match:
  "\<not> list_ex (\<lambda>re. re_test re ''r4/notes.txt'') COMPONENT_LOCATIONS_REGEX"
  by (simp add: COMPONENT_LOCATIONS_REGEX_def re_tests suffix_to_prefix del: re_test.simps)

lemma sample_readmeUrl:
  "readmeUrl ''r1/catalog-info.yaml'' = ''r1/README.md''"
  "readmeUrl ''r3/catalog-info.yaml'' = ''r3/README.md''"
  "readmeUrl ''r1%2Fcatalog-info.yaml'' = ''r1/README.md''"
  "readmeUrl ''r2/.devhub/dev/components.yaml'' = ''r2/README.md''"
  "readmeUrl ''r4/notes.txt'' = ''r4/notes.txt''"
  using readmeUrl_catalog_info [of "''/catalog-info.yaml''" "''r1''"]
    readmeUrl_catalog_info [of "''/catalog-info.yaml''" "''r3''"]
    readmeUrl_catalog_info [of "''%2Fcatalog-info.yaml''" "''r1''"]
    readmeUrl_components [of "''/.devhub/dev/components.yaml''" "''r2''"]
    readmeUrl_no_match [OF sample_no_match]
  by simp_all

lemma sample_probe:
  "checkReadmeFile sample_library (sample_annotated n ''url:r1/catalog-info.yaml'' sp) sample_logger sample_reader =
     (Inr True, [LogInfo ''->>> searching r1/README.md'', Search ''r1/README.md'',
                 LogInfo ''->>> 1, r1/README.md''])"
  "checkReadmeFile sample_library (sample_annotated n ''url:r2/.devhub/dev/components.yaml'' sp) sample_logger sample_reader =
     (Inr False, [LogInfo ''->>> searching r2/README.md'', Search ''r2/README.md'',
                 LogInfo ''->>> 2, r2/README.md''])"
  "checkReadmeFile sample_library (sample_annotated n ''url:r3/catalog-info.yaml'' sp) sample_logger sample_reader =
     (Inr False, [LogInfo ''->>> searching r3/README.md'', Search ''r3/README.md'',
                 LogInfo ''-->>> NotFoundError: not found''])"
  "checkReadmeFile sample_library (sample_entity n None sp) sample_logger sample_reader = (Inr False, [])"
  using sample_parse(1) [of "''r1/catalog-info.yaml''"]
    sample_parse(1) [of "''r2/.devhub/dev/components.yaml''"]
    sample_parse(1) [of "''r3/catalog-info.yaml''"]
  by (simp_all add: checkReadmeFile_def checkReadmeFile_try_def sample_sourceLocation
      sample_readmeUrl sample_reader_def sample_logger_def string_of_nat.simps Let_def)

lemma sample_context_simps:
  "ctx_urlReader sample_context = sample_reader"
  "ctx_logger sample_context = sample_logger"
  "getOwnServiceCredentials (ctx_auth sample_context) = Inr ''plugin:tech-insights''"
  "getPluginRequestToken (ctx_auth sample_context) c pl = Inr \<lparr> token = ''secret'' \<rparr>"
  "catalog_getEntities sample_library d ks t = Inr \<lparr> items = sample_entities \<rparr>"
  by (simp_all add: sample_context_def sample_auth_def sample_library_def)

lemma sample_hasDefinition:
  "hasDefinition_value (sample_annotated n loc (Some \<lparr> spec_definition = Some ''openapi'' \<rparr>)) = Inr (JBoolean True)"
  "hasDefinition_value (sample_annotated n loc (Some \<lparr> spec_definition = Some [] \<rparr>)) = Inr (JString [])"
  "hasDefinition_value (sample_annotated n loc (Some \<lparr> spec_definition = None \<rparr>)) = Inr JUndefined"
  "hasDefinition_value (sample_entity n None None) = Inr JUndefined"
  by (simp_all add: hasDefinition_value_def spec_definition_of_def spec_definition_length_gt_0_def
      sample_annotated_def sample_entity_def)

lemma sample_entity_fields:
  "kind (sample_entity n anns sp) = ''API''"
  "name (metadata (sample_entity n anns sp)) = n"
  "namespace (metadata (sample_entity n anns sp)) = Some ''default''"
  "kind (sample_annotated n loc sp) = ''API''"
  "name (metadata (sample_annotated n loc sp)) = n"
  "namespace (metadata (sample_annotated n loc sp)) = Some ''default''"
  by (simp_all add: sample_annotated_def sample_entity_def)

lemma sample_handler:
  "handler sample_library sample_context =
     Inr [ \<lparr> fact_entity = \<lparr> ref_namespace = Some ''default'', ref_kind = ''API'', ref_name = ''a'' \<rparr>,
             fact_facts = \<lparr> hasDefinition = JBoolean True, hasReadme = True \<rparr> \<rparr>,
           \<lparr> fact_entity = \<lparr> ref_namespace = Some ''default'', ref_kind = ''API'', ref_name = ''b'' \<rparr>,
             fact_facts = \<lparr> hasDefinition = JString [], hasReadme = False \<rparr> \<rparr>,
           \<lparr> fact_entity = \<lparr> ref_namespace = Some ''default'', ref_kind = ''API'', ref_name = ''c'' \<rparr>,
             fact_facts = \<lparr> hasDefinition = JUndefined, hasReadme = False \<rparr> \<rparr>,
           \<lparr> fact_entity = \<lparr> ref_namespace = Some ''default'', ref_kind = ''API'', ref_name = ''d'' \<rparr>,
             fact_facts = \<lparr> hasDefinition = JUndefined, hasReadme = False \<rparr> \<rparr> ]"
  by (simp add: handler_def sample_context_simps sample_entities_def entity_facts_def
      sample_probe sample_hasDefinition sample_entity_fields)


lemma sample_logger_total: "info sample_logger m = Inr ()"
  by (simp add: sample_logger_def)

lemma sample_convertible:
  "parseLocationRef sample_library s = Inl err \<Longrightarrow> \<not> isl (render_exn err)"
  "search sample_reader url = Inl err \<Longrightarrow> \<not> isl (render_exn err)"
  by (auto simp: sample_library_def sample_parseLocationRef_def sample_reader_def split: if_splits)

lemma failing_probe:
  "checkReadmeFile sample_library (sample_annotated n ''nocolon'' sp) failing_logger sample_reader =
     (Inl (Rejected ''Error: logger down''),
      [LogInfo ''-->>> TypeError: Unable to parse location ref''])"
  "checkReadmeFile sample_library (sample_annotated n ''url:r1/catalog-info.yaml'' sp)
       failing_logger sample_reader =
     (Inl (Rejected ''Error: logger down''),
      [LogInfo ''->>> searching r1/README.md'', LogInfo ''-->>> Error: logger down''])"
  using sample_parse(1) [of "''r1/catalog-info.yaml''"]
  by (simp_all add: checkReadmeFile_def checkReadmeFile_try_def sample_sourceLocation
      sample_parse(2) sample_readmeUrl failing_logger_def Let_def)

lemma failing_handler:
  "handler sample_library (sample_context \<lparr> ctx_logger := failing_logger \<rparr>) =
     Inl (Rejected ''Error: logger down'')"
proof -
  have "ctx_urlReader (sample_context \<lparr> ctx_logger := failing_logger \<rparr>) = sample_reader"
    and "ctx_logger (sample_context \<lparr> ctx_logger := failing_logger \<rparr>) = failing_logger"
    and "ctx_auth (sample_context \<lparr> ctx_logger := failing_logger \<rparr>) = ctx_auth sample_context"
    by (simp_all add: sample_context_def)
  then show ?thesis
    by (simp add: handler_def sample_context_simps sample_entities_def entity_facts_def
        failing_probe sample_hasDefinition)
qed

section \<open>The claims\<close>

text \<open>
  C5. For an entity whose source-location annotation is absent, \<^verbatim>\<open>checkReadmeFile\<close> returns
  \<^verbatim>\<open>false\<close> at once, whatever the logger and the reader do: it performs no event at all,
  so it neither logs nor calls the reader's search.
\<close>

theorem checkReadmeFile_no_annotation:
  assumes "sourceLocation lib e = None"
  shows "checkReadmeFile lib e logger reader = (Inr False, [])"
  using assms by (simp add: checkReadmeFile_def)

theorem checkReadmeFile_no_annotation_witness:
  "sourceLocation sample_library (sample_entity ''d'' None None) = None \<and>
   checkReadmeFile sample_library (sample_entity ''d'' None None) failing_logger sample_reader =
     (Inr False, []) \<and>
   searched (snd (checkReadmeFile sample_library (sample_entity ''d'' None None)
     failing_logger sample_reader)) = []"
proof -
  have h: "sourceLocation sample_library (sample_entity ''d'' None None) = None"
    by (rule sample_sourceLocation)
  show ?thesis
    using checkReadmeFile_no_annotation [OF h, of failing_logger sample_reader] h by simp
qed









text \<open>
  C3, as the code has it. An exception of the parser or of the search is caught; the
  handler converts it to text and passes the line to the logger, and when these two steps
  complete the result is \<^verbatim>\<open>false\<close> with that line logged last. \<^verbatim>\<open>checkReadmeFile\<close> throws only
  from inside its \<^verbatim>\<open>catch\<close> handler: when the conversion of the caught value throws, or when
  the logger throws on the line. With a logger that does not throw and thrown values that
  convert to text it always returns a boolean, and then the function mapped over the
  entities by the handler never rejects, so a failing probe of one entity cannot make
  \<^verbatim>\<open>Promise.all\<close> reject.
\<close>

theorem checkReadmeFile_catches_and_logs:
  "(sourceLocation lib e = Some loc \<and> loc \<noteq> [] \<and> parseLocationRef lib loc = Inl err \<and>
    render_exn err = Inr line \<and> info logger (''-->>> '' @ line) = Inr () \<longrightarrow>
      checkReadmeFile lib e logger reader = (Inr False, [LogInfo (''-->>> '' @ line)])) \<and>
   (sourceLocation lib e = Some loc \<and> loc \<noteq> [] \<and> parseLocationRef lib loc = Inr ref \<and>
    info logger (''->>> searching '' @ readmeUrl (target ref)) = Inr () \<and>
    search reader (readmeUrl (target ref)) = Inl err \<and>
    render_exn err = Inr line \<and> info logger (''-->>> '' @ line) = Inr () \<longrightarrow>
      checkReadmeFile lib e logger reader =
        (Inr False,
         [LogInfo (''->>> searching '' @ readmeUrl (target ref)),
          Search (readmeUrl (target ref)),
          LogInfo (''-->>> '' @ line)])) \<and>
   (fst (checkReadmeFile lib e logger reader) = Inl err' \<longrightarrow>
      (\<exists>loc err evs.
         sourceLocation lib e = Some loc \<and> loc \<noteq> [] \<and>
         checkReadmeFile_try lib logger reader loc = (Inl err, evs) \<and>
         (render_exn err = Inl err' \<or>
          (\<exists>line. render_exn err = Inr line \<and> info logger (''-->>> '' @ line) = Inl err')))) \<and>
   ((\<forall>m. info logger m = Inr ()) \<and>
    (\<forall>s err. parseLocationRef lib s = Inl err \<longrightarrow> \<not> isl (render_exn err)) \<and>
    (\<forall>url err. search reader url = Inl err \<longrightarrow> \<not> isl (render_exn err)) \<longrightarrow>
      (\<exists>b. fst (checkReadmeFile lib e logger reader) = Inr b)) \<and>
   ((\<forall>m. info (ctx_logger ctx) m = Inr ()) \<and>
    (\<forall>s err. parseLocationRef lib s = Inl err \<longrightarrow> \<not> isl (render_exn err)) \<and>
    (\<forall>url err. search (ctx_urlReader ctx) url = Inl err \<longrightarrow> \<not> isl (render_exn err)) \<longrightarrow>
      (\<exists>f. entity_facts lib ctx e = Inr f))"
proof (intro conjI impI)
  assume "sourceLocation lib e = Some loc \<and> loc \<noteq> [] \<and> parseLocationRef lib loc = Inl err \<and>
    render_exn err = Inr line \<and> info logger (''-->>> '' @ line) = Inr ()"
  then show "checkReadmeFile lib e logger reader = (Inr False, [LogInfo (''-->>> '' @ line)])"
    by (simp add: checkReadmeFile_def checkReadmeFile_try_def)
next
  assume "sourceLocation lib e = Some loc \<and> loc \<noteq> [] \<and> parseLocationRef lib loc = Inr ref \<and>
    info logger (''->>> searching '' @ readmeUrl (target ref)) = Inr () \<and>
    search reader (readmeUrl (target ref)) = Inl err \<and>
    render_exn err = Inr line \<and> info logger (''-->>> '' @ line) = Inr ()"
  then show "checkReadmeFile lib e logger reader =
        (Inr False,
         [LogInfo (''->>> searching '' @ readmeUrl (target ref)),
          Search (readmeUrl (target ref)),
          LogInfo (''-->>> '' @ line)])"
    by (simp add: checkReadmeFile_def checkReadmeFile_try_def Let_def)
next
  assume "fst (checkReadmeFile lib e logger reader) = Inl err'"
  then show "\<exists>loc err evs.
         sourceLocation lib e = Some loc \<and> loc \<noteq> [] \<and>
         checkReadmeFile_try lib logger reader loc = (Inl err, evs) \<and>
         (render_exn err = Inl err' \<or>
          (\<exists>line. render_exn err = Inr line \<and> info logger (''-->>> '' @ line) = Inl err'))"
    by (rule checkReadmeFile_raises)
next
  assume "(\<forall>m. info logger m = Inr ()) \<and>
    (\<forall>s err. parseLocationRef lib s = Inl err \<longrightarrow> \<not> isl (render_exn err)) \<and>
    (\<forall>url err. search reader url = Inl err \<longrightarrow> \<not> isl (render_exn err))"
  then show "\<exists>b. fst (checkReadmeFile lib e logger reader) = Inr b"
    using checkReadmeFile_total [of logger lib reader e] by blast
next
  assume "(\<forall>m. info (ctx_logger ctx) m = Inr ()) \<and>
    (\<forall>s err. parseLocationRef lib s = Inl err \<longrightarrow> \<not> isl (render_exn err)) \<and>
    (\<forall>url err. search (ctx_urlReader ctx) url = Inl err \<longrightarrow> \<not> isl (render_exn err))"
  then show "\<exists>f. entity_facts lib ctx e = Inr f"
    using entity_facts_total [of ctx lib e] by blast
qed

text \<open>
  The claim as stated says that \<^verbatim>\<open>checkReadmeFile\<close> never throws. With a logger that throws
  and an annotation that does not parse, the exception of the logger leaves the function.
\<close>

theorem checkReadmeFile_raises_with_failing_logger:
  "sourceLocation sample_library (sample_annotated ''e'' ''nocolon'' None) = Some ''nocolon'' \<and>
   parseLocationRef sample_library ''nocolon'' = Inl (TypeError ''Unable to parse location ref'') \<and>
   fst (checkReadmeFile sample_library (sample_annotated ''e'' ''nocolon'' None)
          failing_logger sample_reader) = Inl (Rejected ''Error: logger down'')"
  by (simp add: sample_sourceLocation sample_parse failing_probe)

theorem checkReadmeFile_catches_and_logs_witness:
  "sourceLocation sample_library (sample_annotated ''e'' ''nocolon'' None) = Some ''nocolon'' \<and>
   parseLocationRef sample_library ''nocolon'' = Inl (TypeError ''Unable to parse location ref'') \<and>
   render_exn (TypeError ''Unable to parse location ref'') =
     Inr ''TypeError: Unable to parse location ref'' \<and>
   checkReadmeFile sample_library (sample_annotated ''e'' ''nocolon'' None)
       sample_logger sample_reader =
     (Inr False, [LogInfo ''-->>> TypeError: Unable to parse location ref'']) \<and>
   sourceLocation sample_library (sample_annotated ''c'' ''url:r3/catalog-info.yaml'' None) =
     Some ''url:r3/catalog-info.yaml'' \<and>
   parseLocationRef sample_library ''url:r3/catalog-info.yaml'' =
     Inr \<lparr> ref_type = ''url'', target = ''r3/catalog-info.yaml'' \<rparr> \<and>
   search sample_reader ''r3/README.md'' = Inl (Rejected ''NotFoundError: not found'') \<and>
   checkReadmeFile sample_library (sample_annotated ''c'' ''url:r3/catalog-info.yaml'' None)
       sample_logger sample_reader =
     (Inr False,
      [LogInfo ''->>> searching r3/README.md'', Search ''r3/README.md'',
       LogInfo ''-->>> NotFoundError: not found'']) \<and>
   fst (checkReadmeFile sample_library (sample_annotated ''e'' ''nocolon'' None)
          failing_logger sample_reader) = Inl (Rejected ''Error: logger down'') \<and>
   (\<exists>loc err evs.
      sourceLocation sample_library (sample_annotated ''e'' ''nocolon'' None) = Some loc \<and>
      loc \<noteq> [] \<and>
      checkReadmeFile_try sample_library failing_logger sample_reader loc = (Inl err, evs) \<and>
      (render_exn err = Inl (Rejected ''Error: logger down'') \<or>
       (\<exists>line. render_exn err = Inr line \<and>
          info failing_logger (''-->>> '' @ line) = Inl (Rejected ''Error: logger down'')))) \<and>
   (\<exists>b. fst (checkReadmeFile sample_library
            (sample_annotated ''c'' ''url:r3/catalog-info.yaml'' None)
            sample_logger sample_reader) = Inr b) \<and>
   (\<exists>f. entity_facts sample_library sample_context
            (sample_annotated ''c'' ''url:r3/catalog-info.yaml'' None) = Inr f)"
proof -
  have p: "parseLocationRef sample_library ''url:r3/catalog-info.yaml'' =
      Inr \<lparr> ref_type = ''url'', target = ''r3/catalog-info.yaml'' \<rparr>"
    using sample_parse(1) [of "''r3/catalog-info.yaml''"] by simp
  have s: "search sample_reader ''r3/README.md'' = Inl (Rejected ''NotFoundError: not found'')"
    by (simp add: sample_reader_def)
  have a: "checkReadmeFile sample_library (sample_annotated ''e'' ''nocolon'' None)
       sample_logger sample_reader =
     (Inr False, [LogInfo ''-->>> TypeError: Unable to parse location ref''])"
    using checkReadmeFile_catches_and_logs [where lib = sample_library and e = "sample_annotated ''e'' ''nocolon'' None"
        and logger = sample_logger and reader = sample_reader
        and loc = "''nocolon''" and err = "TypeError ''Unable to parse location ref''"
        and line = "''TypeError: Unable to parse location ref''",
        THEN conjunct1]
    by (simp add: sample_sourceLocation sample_parse sample_logger_total)
  have b: "checkReadmeFile sample_library
       (sample_annotated ''c'' ''url:r3/catalog-info.yaml'' None) sample_logger sample_reader =
     (Inr False,
      [LogInfo ''->>> searching r3/README.md'', Search ''r3/README.md'',
       LogInfo ''-->>> NotFoundError: not found''])"
    using checkReadmeFile_catches_and_logs [where lib = sample_library
        and e = "sample_annotated ''c'' ''url:r3/catalog-info.yaml'' None"
        and logger = sample_logger and reader = sample_reader
        and loc = "''url:r3/catalog-info.yaml''"
        and err = "Rejected ''NotFoundError: not found''"
        and line = "''NotFoundError: not found''"
        and ref = "\<lparr> ref_type = ''url'', target = ''r3/catalog-info.yaml'' \<rparr>",
        THEN conjunct2, THEN conjunct1]
      p s
    by (simp add: sample_sourceLocation sample_readmeUrl sample_logger_total)
  have r: "fst (checkReadmeFile sample_library (sample_annotated ''e'' ''nocolon'' None)
          failing_logger sample_reader) = Inl (Rejected ''Error: logger down'')"
    by (simp add: failing_probe)
  have c: "\<exists>loc err evs.
      sourceLocation sample_library (sample_annotated ''e'' ''nocolon'' None) = Some loc \<and>
      loc \<noteq> [] \<and>
      checkReadmeFile_try sample_library failing_logger sample_reader loc = (Inl err, evs) \<and>
      (render_exn err = Inl (Rejected ''Error: logger down'') \<or>
       (\<exists>line. render_exn err = Inr line \<and>
          info failing_logger (''-->>> '' @ line) = Inl (Rejected ''Error: logger down'')))"
    using checkReadmeFile_catches_and_logs [where lib = sample_library and e = "sample_annotated ''e'' ''nocolon'' None"
        and logger = failing_logger and reader = sample_reader
        and err' = "Rejected ''Error: logger down''",
        THEN conjunct2, THEN conjunct2, THEN conjunct1] r
    by blast
  have d: "\<exists>b. fst (checkReadmeFile sample_library
            (sample_annotated ''c'' ''url:r3/catalog-info.yaml'' None)
            sample_logger sample_reader) = Inr b"
    using checkReadmeFile_catches_and_logs [where lib = sample_library
        and e = "sample_annotated ''c'' ''url:r3/catalog-info.yaml'' None"
        and logger = sample_logger and reader = sample_reader,
        THEN conjunct2, THEN conjunct2, THEN conjunct2,
        THEN conjunct1]
      sample_logger_total sample_convertible
    by blast
  have f: "\<exists>f. entity_facts sample_library sample_context
            (sample_annotated ''c'' ''url:r3/catalog-info.yaml'' None) = Inr f"
    using checkReadmeFile_catches_and_logs [where lib = sample_library
        and e = "sample_annotated ''c'' ''url:r3/catalog-info.yaml'' None"
        and ctx = sample_context,
        THEN conjunct2, THEN conjunct2, THEN conjunct2,
        THEN conjunct2]
      sample_logger_total sample_convertible
    by (simp add: sample_context_simps)
  show ?thesis
    using a b r c d f p s by (simp add: sample_sourceLocation sample_parse)
qed

text \<open>
  C8. When the token is acquired and the catalog returns a list of entities, a list of
  fact records that the handler fulfils with has the same length as the list of entities,
  and the record at each index is the one computed from the entity at that index; this
  holds whatever the logger does. With a logger that does not throw and thrown values
  that convert to text, the handler does fulfil with such a list.
\<close>

theorem handler_records_in_order:
  assumes "getOwnServiceCredentials (ctx_auth ctx) = Inr credentials"
    and "getPluginRequestToken (ctx_auth ctx) credentials ''catalog'' = Inr t"
    and "catalog_getEntities lib (ctx_discovery ctx) [''API''] (token t) = Inr entities"
  shows "(\<forall>records. handler lib ctx = Inr records \<longrightarrow>
            length records = length (items entities) \<and>
            (\<forall>i < length (items entities).
               entity_facts lib ctx (items entities ! i) = Inr (records ! i))) \<and>
         ((\<forall>m. info (ctx_logger ctx) m = Inr ()) \<and>
          (\<forall>s err. parseLocationRef lib s = Inl err \<longrightarrow> \<not> isl (render_exn err)) \<and>
          (\<forall>url err. search (ctx_urlReader ctx) url = Inl err \<longrightarrow> \<not> isl (render_exn err)) \<longrightarrow>
          (\<exists>records. handler lib ctx = Inr records \<and>
             length records = length (items entities) \<and>
             (\<forall>i < length (items entities).
                entity_facts lib ctx (items entities ! i) = Inr (records ! i))))"
proof -
  have h: "handler lib ctx = promise_all (map (entity_facts lib ctx) (items entities))"
    using assms by (simp add: handler_def)
  have order: "length records = length (items entities) \<and>
      (\<forall>i < length (items entities).
         entity_facts lib ctx (items entities ! i) = Inr (records ! i))"
    if "handler lib ctx = Inr records" for records
    using that promise_all_Inr [of "entity_facts lib ctx" "items entities" records]
    by (simp add: h)
  have "\<exists>records. handler lib ctx = Inr records"
    if "(\<forall>m. info (ctx_logger ctx) m = Inr ()) \<and>
        (\<forall>s err. parseLocationRef lib s = Inl err \<longrightarrow> \<not> isl (render_exn err)) \<and>
        (\<forall>url err. search (ctx_urlReader ctx) url = Inl err \<longrightarrow> \<not> isl (render_exn err))"
  proof -
    have "\<exists>f. entity_facts lib ctx x = Inr f" for x
      using that entity_facts_total [of ctx lib x] by blast
    then show ?thesis
      using promise_all_map [of "items entities" "entity_facts lib ctx"] by (simp add: h)
  qed
  with order show ?thesis by blast
qed

theorem handler_records_in_order_witness:
  "getOwnServiceCredentials (ctx_auth sample_context) = Inr ''plugin:tech-insights'' \<and>
   getPluginRequestToken (ctx_auth sample_context) ''plugin:tech-insights'' ''catalog'' =
     Inr \<lparr> token = ''secret'' \<rparr> \<and>
   catalog_getEntities sample_library (ctx_discovery sample_context) [''API''] ''secret'' =
     Inr \<lparr> items = sample_entities \<rparr> \<and>
   (\<exists>records. handler sample_library sample_context = Inr records \<and>
      length records = 4 \<and>
      map (ref_name \<circ> fact_entity) records = map (name \<circ> metadata) sample_entities \<and>
      entity_facts sample_library sample_context (sample_entities ! 2) = Inr (records ! 2))"
proof -
  have h1: "getOwnServiceCredentials (ctx_auth sample_context) = Inr ''plugin:tech-insights''"
    and h2: "getPluginRequestToken (ctx_auth sample_context) ''plugin:tech-insights'' ''catalog'' =
      Inr \<lparr> token = ''secret'' \<rparr>"
    and h3: "catalog_getEntities sample_library (ctx_discovery sample_context) [''API'']
      (token \<lparr> token = ''secret'' \<rparr>) = Inr \<lparr> items = sample_entities \<rparr>"
    by (simp_all add: sample_context_simps)
  have len: "length sample_entities = 4"
    by (simp add: sample_entities_def)
  have ok: "(\<forall>m. info (ctx_logger sample_context) m = Inr ()) \<and>
      (\<forall>s err. parseLocationRef sample_library s = Inl err \<longrightarrow> \<not> isl (render_exn err)) \<and>
      (\<forall>url err. search (ctx_urlReader sample_context) url = Inl err \<longrightarrow>
         \<not> isl (render_exn err))"
    using sample_logger_total sample_convertible by (simp add: sample_context_simps)
  from handler_records_in_order [OF h1 h2 h3, THEN conjunct2, rule_format, OF ok]
  obtain records where r: "handler sample_library sample_context = Inr records"
    "length records = 4"
    "\<forall>i < 4. entity_facts sample_library sample_context (sample_entities ! i) = Inr (records ! i)"
    using len by auto
  have "map (ref_name \<circ> fact_entity) records = map (name \<circ> metadata) sample_entities"
    using r(1) by (simp add: sample_handler) (auto simp: sample_entities_def sample_entity_fields)
  then show ?thesis
    using h1 h2 h3 r by simp
qed

text \<open>
  C9, as the code has it. An error thrown by the acquisition of the token (the service
  credentials, then the plugin request token) or by the listing of the entities is not
  caught: the handler rejects with it, and a rejected handler carries no fact records.
  When these calls all return, the handler rejects only if the probe of some entity
  throws, which takes an exception inside the \<^verbatim>\<open>catch\<close> handler of \<^verbatim>\<open>checkReadmeFile\<close>. With a
  logger that does not throw and thrown values that convert to text, the handler rejects
  with an error exactly when one of the three calls throws it.
\<close>

theorem handler_raises_iff_listing_raises:
  "(getOwnServiceCredentials (ctx_auth ctx) = Inl err \<or>
    (\<exists>credentials. getOwnServiceCredentials (ctx_auth ctx) = Inr credentials \<and>
       (getPluginRequestToken (ctx_auth ctx) credentials ''catalog'' = Inl err \<or>
        (\<exists>t. getPluginRequestToken (ctx_auth ctx) credentials ''catalog'' = Inr t \<and>
             catalog_getEntities lib (ctx_discovery ctx) [''API''] (token t) = Inl err))) \<longrightarrow>
    handler lib ctx = Inl err) \<and>
   (getOwnServiceCredentials (ctx_auth ctx) = Inr credentials \<and>
    getPluginRequestToken (ctx_auth ctx) credentials ''catalog'' = Inr t \<and>
    catalog_getEntities lib (ctx_discovery ctx) [''API''] (token t) = Inr entities \<and>
    handler lib ctx = Inl err \<longrightarrow>
      (\<exists>e \<in> set (items entities).
         fst (checkReadmeFile lib e (ctx_logger ctx) (ctx_urlReader ctx)) = Inl err)) \<and>
   ((\<forall>m. info (ctx_logger ctx) m = Inr ()) \<and>
    (\<forall>s err. parseLocationRef lib s = Inl err \<longrightarrow> \<not> isl (render_exn err)) \<and>
    (\<forall>url err. search (ctx_urlReader ctx) url = Inl err \<longrightarrow> \<not> isl (render_exn err)) \<longrightarrow>
    (handler lib ctx = Inl err \<longleftrightarrow>
       getOwnServiceCredentials (ctx_auth ctx) = Inl err \<or>
       (\<exists>credentials. getOwnServiceCredentials (ctx_auth ctx) = Inr credentials \<and>
          (getPluginRequestToken (ctx_auth ctx) credentials ''catalog'' = Inl err \<or>
           (\<exists>t. getPluginRequestToken (ctx_auth ctx) credentials ''catalog'' = Inr t \<and>
                catalog_getEntities lib (ctx_discovery ctx) [''API''] (token t) = Inl err)))))"
proof (intro conjI impI)
  assume "getOwnServiceCredentials (ctx_auth ctx) = Inl err \<or>
    (\<exists>credentials. getOwnServiceCredentials (ctx_auth ctx) = Inr credentials \<and>
       (getPluginRequestToken (ctx_auth ctx) credentials ''catalog'' = Inl err \<or>
        (\<exists>t. getPluginRequestToken (ctx_auth ctx) credentials ''catalog'' = Inr t \<and>
             catalog_getEntities lib (ctx_discovery ctx) [''API''] (token t) = Inl err)))"
  then show "handler lib ctx = Inl err"
    by (auto simp: handler_def)
next
  assume a: "getOwnServiceCredentials (ctx_auth ctx) = Inr credentials \<and>
    getPluginRequestToken (ctx_auth ctx) credentials ''catalog'' = Inr t \<and>
    catalog_getEntities lib (ctx_discovery ctx) [''API''] (token t) = Inr entities \<and>
    handler lib ctx = Inl err"
  then have "promise_all (map (entity_facts lib ctx) (items entities)) = Inl err"
    by (auto simp: handler_def)
  then obtain e where "e \<in> set (items entities)" "entity_facts lib ctx e = Inl err"
    using promise_all_Inl by fastforce
  then show "\<exists>e \<in> set (items entities).
      fst (checkReadmeFile lib e (ctx_logger ctx) (ctx_urlReader ctx)) = Inl err"
    using entity_facts_raises by blast
next
  assume ok: "(\<forall>m. info (ctx_logger ctx) m = Inr ()) \<and>
    (\<forall>s err. parseLocationRef lib s = Inl err \<longrightarrow> \<not> isl (render_exn err)) \<and>
    (\<forall>url err. search (ctx_urlReader ctx) url = Inl err \<longrightarrow> \<not> isl (render_exn err))"
  have "\<exists>f. entity_facts lib ctx x = Inr f" for x
    using ok entity_facts_total [of ctx lib x] by blast
  then have "promise_all (map (entity_facts lib ctx) xs) \<noteq> Inl err" for xs
    using promise_all_map [of xs "entity_facts lib ctx"] by fastforce
  then show "handler lib ctx = Inl err \<longleftrightarrow>
       getOwnServiceCredentials (ctx_auth ctx) = Inl err \<or>
       (\<exists>credentials. getOwnServiceCredentials (ctx_auth ctx) = Inr credentials \<and>
          (getPluginRequestToken (ctx_auth ctx) credentials ''catalog'' = Inl err \<or>
           (\<exists>t. getPluginRequestToken (ctx_auth ctx) credentials ''catalog'' = Inr t \<and>
                catalog_getEntities lib (ctx_discovery ctx) [''API''] (token t) = Inl err)))"
    by (auto simp: handler_def split: sum.splits)
qed

text \<open>
  The claim as stated says that the handler throws exactly when the acquisition of the
  token or the listing throws. With a logger that throws, the three calls return and the
  handler rejects all the same.
\<close>

theorem handler_raises_with_failing_logger:
  "getOwnServiceCredentials (ctx_auth (sample_context \<lparr> ctx_logger := failing_logger \<rparr>)) =
     Inr ''plugin:tech-insights'' \<and>
   getPluginRequestToken (ctx_auth (sample_context \<lparr> ctx_logger := failing_logger \<rparr>))
     ''plugin:tech-insights'' ''catalog'' = Inr \<lparr> token = ''secret'' \<rparr> \<and>
   catalog_getEntities sample_library
     (ctx_discovery (sample_context \<lparr> ctx_logger := failing_logger \<rparr>)) [''API''] ''secret'' =
     Inr \<lparr> items = sample_entities \<rparr> \<and>
   handler sample_library (sample_context \<lparr> ctx_logger := failing_logger \<rparr>) =
     Inl (Rejected ''Error: logger down'')"
  by (simp add: failing_handler sample_context_simps)

theorem handler_raises_iff_listing_raises_witness:
  "handler sample_library
     (sample_context \<lparr> ctx_auth :=
        sample_auth \<lparr> getPluginRequestToken :=
          (\<lambda>c p. Inl (Rejected ''AuthenticationError: no token'')) \<rparr> \<rparr>) =
     Inl (Rejected ''AuthenticationError: no token'') \<and>
   handler sample_library (sample_context \<lparr> ctx_logger := failing_logger \<rparr>) =
     Inl (Rejected ''Error: logger down'') \<and>
   (\<exists>e \<in> set sample_entities.
      fst (checkReadmeFile sample_library e failing_logger sample_reader) =
        Inl (Rejected ''Error: logger down'')) \<and>
   handler (sample_library \<lparr> catalog_getEntities :=
              (\<lambda>d ks t. Inl (Rejected ''ResponseError: 503'')) \<rparr>) sample_context =
     Inl (Rejected ''ResponseError: 503'')"
proof -
  have a: "handler sample_library
     (sample_context \<lparr> ctx_auth :=
        sample_auth \<lparr> getPluginRequestToken :=
          (\<lambda>c p. Inl (Rejected ''AuthenticationError: no token'')) \<rparr> \<rparr>) =
     Inl (Rejected ''AuthenticationError: no token'')"
    using handler_raises_iff_listing_raises [where lib = sample_library
      and ctx = "sample_context \<lparr> ctx_auth := sample_auth \<lparr> getPluginRequestToken :=
          (\<lambda>c p. Inl (Rejected ''AuthenticationError: no token'')) \<rparr> \<rparr>"
      and err = "Rejected ''AuthenticationError: no token''", THEN conjunct1]
    by (simp add: sample_context_def sample_auth_def)
  have b: "\<exists>e \<in> set sample_entities.
      fst (checkReadmeFile sample_library e failing_logger sample_reader) =
        Inl (Rejected ''Error: logger down'')"
    using handler_raises_iff_listing_raises [where lib = sample_library
      and ctx = "sample_context \<lparr> ctx_logger := failing_logger \<rparr>"
      and err = "Rejected ''Error: logger down''"
      and credentials = "''plugin:tech-insights''" and t = "\<lparr> token = ''secret'' \<rparr>"
      and entities = "\<lparr> items = sample_entities \<rparr>", THEN conjunct2, THEN conjunct1]
      failing_handler
    by (simp add: sample_context_simps)
  have c: "handler (sample_library \<lparr> catalog_getEntities :=
              (\<lambda>d ks t. Inl (Rejected ''ResponseError: 503'')) \<rparr>) sample_context =
     Inl (Rejected ''ResponseError: 503'')"
    using handler_raises_iff_listing_raises [where
      lib = "sample_library \<lparr> catalog_getEntities :=
              (\<lambda>d ks t. Inl (Rejected ''ResponseError: 503'')) \<rparr>"
      and ctx = sample_context and err = "Rejected ''ResponseError: 503''",
      THEN conjunct2, THEN conjunct2]
      sample_logger_total sample_convertible
    by (simp add: sample_context_simps)
  show ?thesis
    using a b c failing_handler by simp
qed

text \<open>
  C4, as the module has it. The module exports two names: \<^verbatim>\<open>checks\<close>, the list of the two
  check descriptors, and \<^verbatim>\<open>apiDefinitionFactRetriever\<close>, which is the only fact-retriever
  descriptor, with its fixed identifier, version and schema of two facts of type
  \<^verbatim>\<open>boolean\<close>, and with the handler above.
\<close>

theorem module_exports_one_retriever:
  "module_exports lib =
     [(''checks'', ExportChecks (checks lib)),
      (''apiDefinitionFactRetriever'', ExportFactRetriever (apiDefinitionFactRetriever lib))] \<and>
   length (filter (is_fact_retriever \<circ> snd) (module_exports lib)) = 1 \<and>
   length (filter (is_check_list \<circ> snd) (module_exports lib)) = 1 \<and>
   retriever_id (apiDefinitionFactRetriever lib) = ''apiDefinitionFactRetriever'' \<and>
   retriever_version (apiDefinitionFactRetriever lib) = ''0.0.1'' \<and>
   retriever_schema (apiDefinitionFactRetriever lib) =
     [(''hasDefinition'',
       \<lparr> schema_type = ''boolean'',
         schema_description = ''The entity has a definition in spec'' \<rparr>),
      (''hasReadme'',
       \<lparr> schema_type = ''boolean'', schema_description = ''The entity has a readme file'' \<rparr>)] \<and>
   retriever_handler (apiDefinitionFactRetriever lib) = handler lib \<and>
   length (checks lib) = 2 \<and>
   map check_id (checks lib) = [''groupOwnerCheck'', ''apiDefinitionCheck''] \<and>
   map check_type (checks lib) =
     [JSON_RULE_ENGINE_CHECK_TYPE lib, JSON_RULE_ENGINE_CHECK_TYPE lib] \<and>
   map factIds (checks lib) =
     [[''entityOwnershipFactRetriever''], [''apiDefinitionFactRetriever'']] \<and>
   map (map fact \<circ> rule_conditions_all) (checks lib) =
     [[''hasGroupOwner''], [''hasDefinition'', ''hasReadme'']]"
  by (simp add: module_exports_def apiDefinitionFactRetriever_def checks_def)

text \<open>The claim as stated asks for two fact-retriever descriptors among the exports.\<close>

theorem module_exports_not_two_retrievers:
  "length (filter (is_fact_retriever \<circ> snd) (module_exports sample_library)) \<noteq> 2"
  by (simp add: module_exports_def)

text \<open>
  C1, evaluated. On the sample catalog the handler stores \<^verbatim>\<open>true\<close> under \<^verbatim>\<open>hasDefinition\<close>
  for the entity with a non-empty definition, but the empty string for the entity whose
  definition is empty, and \<^verbatim>\<open>undefined\<close> for the entities without a definition or without
  a spec: \<^verbatim>\<open>&&\<close> hands back its falsy left operand, and none of these values is \<^verbatim>\<open>false\<close>.
\<close>

theorem handler_hasDefinition_on_samples:
  "map (spec_definition_of) sample_entities =
     [JString ''openapi'', JString [], JUndefined, JUndefined] \<and>
   map_sum id (map (hasDefinition \<circ> fact_facts)) (handler sample_library sample_context) =
     Inr [JBoolean True, JString [], JUndefined, JUndefined]"
  by (simp add: sample_handler)
    (simp add: sample_entities_def sample_annotated_def sample_entity_def spec_definition_of_def)

end
